theory Spec2Isabelle
  imports Complex_Main "HOL-Library.Word"
begin

section \<open>The OCR route of gravix-ocr: preprocessing and request handling\<close>

text \<open>
  The development embeds the server route (\<^verbatim>\<open>createOpenAIClient\<close>,
  \<^verbatim>\<open>processImageForOCR\<close>, \<^verbatim>\<open>POST\<close>) and the client's
  \<^verbatim>\<open>processFile\<close>. The imaging library (sharp), the chat-completion SDK and the
  process environment are not part of the repository: they are parameters of the model.
  Exceptions are values of sum types, and the handler returns, next to its response, the
  list of chat-completion calls it has issued. A second form of the handler passes the state
  of the world outside through the call, and the retries of the SDK client are modelled on
  top of it after the SDK's documented defaults.
\<close>

subsection \<open>JavaScript numbers\<close>

text \<open>
  A JavaScript number is an IEEE 754 binary64 value. \<open>fl\<close> rounds a rational to the
  nearest number with a 53-bit significand, ties to even, with an unbounded exponent:
  it is the binary64 rounding for every magnitude between \<open>2^-1022\<close> and \<open>2^1024\<close>,
  which covers all values the preprocessor computes.
\<close>

fun ilog2 :: "nat \<Rightarrow> nat" where
  "ilog2 n = (if n < 2 then 0 else Suc (ilog2 (n div 2)))"

declare ilog2.simps [simp del]

definition round_ties_even :: "rat \<Rightarrow> int" where
  "round_ties_even q =
     (let f = \<lfloor>q\<rfloor>; d = q - of_int f
      in if d < 1 / 2 then f
         else if 1 / 2 < d then f + 1
         else if even f then f else f + 1)"

definition ulp :: "rat \<Rightarrow> rat" where
  \<comment> \<open>the spacing of binary64 numbers around a positive \<open>x\<close>\<close>
  "ulp x =
     (if 1 \<le> x then 2 ^ ilog2 (nat \<lfloor>x\<rfloor>) / 2 ^ 52
      else 1 / (2 ^ ilog2 (nat \<lceil>1 / x\<rceil> - 1) * 2 ^ 53))"

definition fl :: "rat \<Rightarrow> rat" where
  "fl x =
     (if x = 0 then 0
      else if 0 < x then of_int (round_ties_even (x / ulp x)) * ulp x
      else - (of_int (round_ties_even (- x / ulp (- x))) * ulp (- x)))"

definition js_div :: "rat \<Rightarrow> rat \<Rightarrow> rat" where
  "js_div a b = fl (a / b)"

definition js_mul :: "rat \<Rightarrow> rat \<Rightarrow> rat" where
  "js_mul a b = fl (a * b)"

definition Math_round :: "rat \<Rightarrow> int" where
  \<comment> \<open>\<^verbatim>\<open>Math.round\<close>: the nearest integer, a tie going up\<close>
  "Math_round x = \<lfloor>x + 1 / 2\<rfloor>"

definition Math_max :: "nat \<Rightarrow> nat \<Rightarrow> nat" where
  "Math_max a b = max a b"

subsection \<open>Buffers and strings\<close>

type_synonym buffer = "8 word list"

definition b64chars :: string where
  "b64chars = ''ABCDEFGHIJKLMNOPQRSTUVWXYZabcdefghijklmnopqrstuvwxyz0123456789+/''"

definition b64char :: "nat \<Rightarrow> char" where
  "b64char n = b64chars ! (n mod 64)"

text \<open>\<^verbatim>\<open>Buffer.toString("base64")\<close>: three bytes give four characters, padded with \<open>=\<close>.\<close>

fun toString_base64 :: "buffer \<Rightarrow> string" where
  "toString_base64 (a # b # c # rest) =
     (let n = unat a * 65536 + unat b * 256 + unat c
      in [b64char (n div 262144), b64char (n div 4096), b64char (n div 64), b64char n]
         @ toString_base64 rest)"
| "toString_base64 [a, b] =
     (let n = unat a * 65536 + unat b * 256
      in [b64char (n div 262144), b64char (n div 4096), b64char (n div 64), CHR ''=''])"
| "toString_base64 [a] =
     (let n = unat a * 65536
      in [b64char (n div 262144), b64char (n div 4096), CHR ''='', CHR ''=''])"
| "toString_base64 [] = []"

fun startsWith :: "string \<Rightarrow> string \<Rightarrow> bool" where
  "startsWith s [] = True"
| "startsWith [] (c # cs) = False"
| "startsWith (d # ds) (c # cs) = (d = c \<and> startsWith ds cs)"

fun string_includes :: "string \<Rightarrow> string \<Rightarrow> bool" where
  "string_includes [] t = (t = [])"
| "string_includes (c # cs) t = (startsWith (c # cs) t \<or> string_includes cs t)"

definition digit_char :: "nat \<Rightarrow> char" where
  "digit_char d = ''0123456789'' ! (d mod 10)"

fun number_toString :: "nat \<Rightarrow> string" where
  "number_toString n =
     (if n < 10 then [digit_char n] else number_toString (n div 10) @ [digit_char (n mod 10)])"

declare number_toString.simps [simp del]

subsection \<open>The imaging library\<close>

record metadata =
  width :: "nat option"
  height :: "nat option"
  format :: "string option"

datatype kernel = lanczos3

record sharpen_options =
  sigma :: nat
  m1 :: nat
  m2 :: nat
  x1 :: nat
  y2 :: nat
  y3 :: nat

record png_options =
  quality :: nat
  compressionLevel :: nat

datatype sharp_op =
    Grayscale
  | Normalize
  | Resize int int kernel
  | Sharpen sharpen_options
  | Gamma rat
  | Png png_options

text \<open>
  The library's two asynchronous entry points: reading the metadata of a buffer, and running
  a pipeline of operations on a buffer. Either may reject with an error message.
\<close>

record sharp =
  sharp_metadata :: "buffer \<Rightarrow> string + metadata"
  sharp_toBuffer :: "sharp_op list \<Rightarrow> buffer \<Rightarrow> string + buffer"

definition truthy_number :: "nat option \<Rightarrow> bool" where
  "truthy_number v = (case v of None \<Rightarrow> False | Some n \<Rightarrow> n \<noteq> 0)"

text \<open>Step 3 of the pipeline (lines 36 to 48): the resize operation, if any.\<close>

definition resize_step :: "metadata \<Rightarrow> sharp_op list" where
  "resize_step md =
     (if truthy_number (width md) \<and> truthy_number (height md) then
        (let w = the (width md); h = the (height md);
             maxDimension = Math_max w h
         in if maxDimension < 1000 then
              (let scaleFactor = js_div 1000 (of_nat maxDimension)
               in [Resize (Math_round (js_mul (of_nat w) scaleFactor))
                          (Math_round (js_mul (of_nat h) scaleFactor))
                          lanczos3])
            else [])
      else [])"

definition pipeline :: "metadata \<Rightarrow> sharp_op list" where
  "pipeline md =
     [Grayscale, Normalize] @ resize_step md @
     [Sharpen \<lparr>sigma = 1, m1 = 1, m2 = 2, x1 = 2, y2 = 10, y3 = 20\<rparr>,
      Gamma (fl (6 / 5)),
      Png \<lparr>quality = 100, compressionLevel = 0\<rparr>]"

text \<open>The body of the \<^verbatim>\<open>try\<close> block of \<^verbatim>\<open>processImageForOCR\<close>.\<close>

definition processImageForOCR_try :: "sharp \<Rightarrow> buffer \<Rightarrow> string + buffer" where
  "processImageForOCR_try lib imageBuffer =
     (case sharp_metadata lib imageBuffer of
        Inl err \<Rightarrow> Inl err
      | Inr md \<Rightarrow> sharp_toBuffer lib (pipeline md) imageBuffer)"

text \<open>The function with its \<^verbatim>\<open>catch\<close>: any error gives back the buffer it was given.\<close>

definition processImageForOCR :: "sharp \<Rightarrow> buffer \<Rightarrow> buffer" where
  "processImageForOCR lib imageBuffer =
     (case processImageForOCR_try lib imageBuffer of
        Inl err \<Rightarrow> imageBuffer
      | Inr processedBuffer \<Rightarrow> processedBuffer)"

subsection \<open>The chat-completion client\<close>

type_synonym env = "string \<Rightarrow> string option"

definition falsy_string :: "string option \<Rightarrow> bool" where
  \<comment> \<open>\<^verbatim>\<open>!s\<close> for a string that may be undefined\<close>
  "falsy_string v = (case v of None \<Rightarrow> True | Some s \<Rightarrow> s = [])"

record openai_client =
  apiKey :: string
  baseURL :: string

definition createOpenAIClient :: "env \<Rightarrow> string + openai_client" where
  "createOpenAIClient e =
     (let k = e ''GRAVIXLAYER_API_KEY''
      in if falsy_string k
         then Inl ''GRAVIXLAYER_API_KEY environment variable is required''
         else Inr \<lparr>apiKey = the k, baseURL = ''https://api.gravixlayer.com/v1''\<rparr>)"

record chat_request =
  instruction :: string
  image_url :: string
  model :: string
  temperature :: nat
  max_tokens :: nat
  top_p :: nat
  seed :: nat
  stream :: bool

record chat_message =
  content :: "string option"

record chat_choice =
  message :: "chat_message option"

record chat_completion =
  choices :: "chat_choice list option"

text \<open>
  What \<^verbatim>\<open>openai.chat.completions.create\<close> can throw: an \<^verbatim>\<open>OpenAI.APIError\<close> with its
  status and message, another \<^verbatim>\<open>Error\<close> with its message, or a value that is no
  \<^verbatim>\<open>Error\<close>. Otherwise it resolves to a completion, which the handler tests for null.
\<close>

datatype api_thrown =
    APIError "nat option" string
  | OtherError string
  | NotAnError

type_synonym chat_api = "openai_client \<Rightarrow> chat_request \<Rightarrow> api_thrown + chat_completion option"

subsection \<open>The request handler\<close>

record js_file =
  file_name :: string
  file_type :: string
  file_bytes :: buffer

definition file_size :: "js_file \<Rightarrow> nat" where
  \<comment> \<open>\<^verbatim>\<open>file.size\<close>: the number of bytes of the file\<close>
  "file_size f = length (file_bytes f)"

type_synonym form_data = "(string \<times> js_file) list"

definition formData_get :: "form_data \<Rightarrow> string \<Rightarrow> js_file option" where
  "formData_get fd k = map_of fd k"

text \<open>
  \<^verbatim>\<open>request.formData()\<close> rejects with an error (a body that is not form data) or
  resolves to the form. The handler reads the entry \<^verbatim>\<open>image\<close> with the type assertion
  \<^verbatim>\<open>as File\<close>, so the entries of the model are files; \<^verbatim>\<open>get\<close> gives the first entry
  of that name, or null.
\<close>

datatype request = BodyRejected string | Form form_data

datatype response_body = JsonText string | JsonError string

record response =
  body :: response_body
  status :: nat

datatype thrown = ErrorObject string | UnknownValue

definition make_request :: "string \<Rightarrow> chat_request" where
  "make_request dataUrl =
     \<lparr>instruction = ''Extract all the text from the image. Make sure to only return the extracted text and nothing else.'',
      image_url = dataUrl,
      model = ''google/gemma-3-12b-it'',
      temperature = 0,
      max_tokens = 2048,
      top_p = 1,
      seed = 0,
      stream = False\<rparr>"

definition make_dataUrl :: "buffer \<Rightarrow> string" where
  "make_dataUrl processedBuffer =
     (let base64Image = toString_base64 processedBuffer;
          mimeType = ''image/png''
      in ''data:'' @ mimeType @ '';base64,'' @ base64Image)"

text \<open>The inner \<^verbatim>\<open>catch\<close> (lines 147 to 166): every thrown value is thrown again as an \<^verbatim>\<open>Error\<close>.\<close>

fun rethrow :: "api_thrown \<Rightarrow> thrown" where
  "rethrow (APIError st msg) =
     ErrorObject (''Gravix Layer API error ('' @
       (if truthy_number st then number_toString (the st) else ''unknown'') @ ''): '' @ msg)"
| "rethrow (OtherError msg) = ErrorObject (''Network or SDK error during API call: '' @ msg)"
| "rethrow NotAnError = ErrorObject ''An unexpected error occurred during the API call.''"

text \<open>Lines 168 to 178: from the completion to the response.\<close>

definition extractedText_response :: "chat_completion option \<Rightarrow> response" where
  "extractedText_response completion =
     (case completion of
        None \<Rightarrow> \<lparr>body = JsonError ''Unexpected response structure from Gravix Layer API'', status = 500\<rparr>
      | Some c \<Rightarrow>
          (case choices c of
             None \<Rightarrow> \<lparr>body = JsonError ''Unexpected response structure from Gravix Layer API'', status = 500\<rparr>
           | Some [] \<Rightarrow> \<lparr>body = JsonError ''Unexpected response structure from Gravix Layer API'', status = 500\<rparr>
           | Some (c0 # _) \<Rightarrow>
               (case message c0 of
                  None \<Rightarrow> \<lparr>body = JsonError ''Unexpected response structure from Gravix Layer API'', status = 500\<rparr>
                | Some m \<Rightarrow>
                    (let extractedText =
                       (if falsy_string (content m) then ''No text could be extracted from the image''
                        else the (content m))
                     in \<lparr>body = JsonText extractedText, status = 200\<rparr>))))"

text \<open>The outer \<^verbatim>\<open>catch\<close> (lines 179 to 201).\<close>

fun outer_catch :: "thrown \<Rightarrow> response" where
  "outer_catch (ErrorObject msg) =
     (if string_includes msg ''GRAVIXLAYER_API_KEY''
      then \<lparr>body = JsonError ''GRAVIXLAYER_API_KEY environment variable is not set'', status = 500\<rparr>
      else if string_includes msg ''Invalid API key''
      then \<lparr>body = JsonError ''Invalid API key'', status = 401\<rparr>
      else if string_includes msg ''Rate limit exceeded''
      then \<lparr>body = JsonError ''Rate limit exceeded'', status = 429\<rparr>
      else \<lparr>body = JsonError (''Internal server error: '' @ msg), status = 500\<rparr>)"
| "outer_catch UnknownValue =
     \<lparr>body = JsonError ''An unknown internal server error occurred.'', status = 500\<rparr>"

text \<open>
  The body of the outer \<^verbatim>\<open>try\<close> block: a response or a thrown value, with the
  chat-completion calls made on the way.
\<close>

definition POST_try :: "env \<Rightarrow> sharp \<Rightarrow> chat_api \<Rightarrow> request \<Rightarrow> (thrown + response) \<times> chat_request list" where
  "POST_try e lib api req =
     (if falsy_string (e ''GRAVIXLAYER_API_KEY'')
      then (Inr \<lparr>body = JsonError ''GRAVIXLAYER_API_KEY environment variable is not set'', status = 500\<rparr>, [])
      else
        (case req of
           BodyRejected msg \<Rightarrow> (Inl (ErrorObject msg), [])
         | Form formData \<Rightarrow>
             (case formData_get formData ''image'' of
                None \<Rightarrow> (Inr \<lparr>body = JsonError ''No image file provided'', status = 400\<rparr>, [])
              | Some imageFile \<Rightarrow>
                  (let originalBuffer = file_bytes imageFile;
                       processedBuffer = processImageForOCR lib originalBuffer;
                       dataUrl = make_dataUrl processedBuffer
                   in case createOpenAIClient e of
                        Inl msg \<Rightarrow> (Inl (rethrow (OtherError msg)), [])
                      | Inr openai \<Rightarrow>
                          (case api openai (make_request dataUrl) of
                             Inl apiCallError \<Rightarrow> (Inl (rethrow apiCallError), [make_request dataUrl])
                           | Inr completion \<Rightarrow> (Inr (extractedText_response completion), [make_request dataUrl]))))))"

definition POST :: "env \<Rightarrow> sharp \<Rightarrow> chat_api \<Rightarrow> request \<Rightarrow> response \<times> chat_request list" where
  "POST e lib api req =
     (case POST_try e lib api req of
        (Inl error, calls) \<Rightarrow> (outer_catch error, calls)
      | (Inr res, calls) \<Rightarrow> (res, calls))"

subsection \<open>The client's file check\<close>

text \<open>
  \<^verbatim>\<open>processFile\<close> awaits \<^verbatim>\<open>resizeImageForDisplay\<close> before it hands the file to
  \<^verbatim>\<open>handleOCR\<close>. That promise resolves in the \<^verbatim>\<open>onload\<close> handler of the image, is
  rejected when its executor throws (\<^verbatim>\<open>processFile\<close> catches that and goes on), and never
  settles when the browser cannot load the image, since there is no \<^verbatim>\<open>onerror\<close> handler.
  What the browser does with a file is a parameter.
\<close>

datatype preview = Resolved string | Rejected | Pending

datatype client_action = ShowError string | Submit js_file | NeverSubmitted

definition processFile :: "(js_file \<Rightarrow> preview) \<Rightarrow> js_file \<Rightarrow> client_action" where
  "processFile resizeImageForDisplay f =
     (if startsWith (file_type f) ''image/'' then
        (if 10 * 1024 * 1024 < file_size f then ShowError ''File must be under 10MB''
         else
           (case resizeImageForDisplay f of
              Resolved resizedUrl \<Rightarrow> Submit f
            | Rejected \<Rightarrow> Submit f
            | Pending \<Rightarrow> NeverSubmitted))
      else ShowError ''Please select an image file'')"

subsection \<open>The upstream as a state transformer\<close>





subsection \<open>The retries of the SDK client\<close>







subsection \<open>Sample environments, libraries and files\<close>

definition env_with_key :: "string \<Rightarrow> env" where
  "env_with_key k n = (if n = ''GRAVIXLAYER_API_KEY'' then Some k else None)"

definition env_without_key :: env where
  "env_without_key n = None"

text \<open>An imaging library that rejects every buffer, and one that answers with fixed values.\<close>

definition sharp_rejecting :: "string \<Rightarrow> sharp" where
  "sharp_rejecting msg =
     \<lparr>sharp_metadata = (\<lambda>b. Inl msg), sharp_toBuffer = (\<lambda>ops b. Inl msg)\<rparr>"

definition sharp_answering :: "metadata \<Rightarrow> buffer \<Rightarrow> sharp" where
  "sharp_answering md out =
     \<lparr>sharp_metadata = (\<lambda>b. Inr md), sharp_toBuffer = (\<lambda>ops b. Inr out)\<rparr>"

text \<open>A chat-completion API with one fixed outcome.\<close>

definition api_returning :: "api_thrown + chat_completion option \<Rightarrow> chat_api" where
  "api_returning r cl rq = r"

definition completion_with :: "string option \<Rightarrow> chat_completion" where
  "completion_with c = \<lparr>choices = Some [\<lparr>message = Some \<lparr>content = c\<rparr>\<rparr>]\<rparr>"

text \<open>The eight bytes every PNG stream starts with, and the first bytes of a JPEG stream.\<close>

definition png_signature :: buffer where
  "png_signature = [0x89, 0x50, 0x4E, 0x47, 0x0D, 0x0A, 0x1A, 0x0A]"

definition has_png_signature :: "buffer \<Rightarrow> bool" where
  "has_png_signature b = (take (length png_signature) b = png_signature)"

definition jpeg_head :: buffer where
  "jpeg_head = [0xFF, 0xD8, 0xFF, 0xE0]"

definition jpeg_upload :: js_file where
  "jpeg_upload = \<lparr>file_name = ''scan.jpg'', file_type = ''image/jpeg'', file_bytes = jpeg_head\<rparr>"

definition text_upload :: js_file where
  "text_upload =
     \<lparr>file_name = ''notes.txt'', file_type = ''text/plain'',
      file_bytes = replicate (11 * 1024 * 1024) 0x61\<rparr>"

text \<open>
  A GIF image of one pixel, and a browser that loads GIF images and nothing else.
\<close>

definition gif_pixel :: buffer where
  "gif_pixel =
     [0x47, 0x49, 0x46, 0x38, 0x39, 0x61, 0x01, 0x00, 0x01, 0x00, 0x80, 0x00, 0x00,
      0x00, 0x00, 0x00, 0xFF, 0xFF, 0xFF, 0x21, 0xF9, 0x04, 0x01, 0x00, 0x00, 0x00, 0x00,
      0x2C, 0x00, 0x00, 0x00, 0x00, 0x01, 0x00, 0x01, 0x00, 0x00, 0x02, 0x02, 0x44, 0x01, 0x00,
      0x3B]"

definition gif_upload :: js_file where
  "gif_upload = \<lparr>file_name = ''pixel.gif'', file_type = ''image/gif'', file_bytes = gif_pixel\<rparr>"

definition preview_of_gif :: "js_file \<Rightarrow> preview" where
  "preview_of_gif f =
     (if take 6 (file_bytes f) = take 6 gif_pixel then Resolved ''data:image/jpeg;base64,''
      else Pending)"

section \<open>Rounding error of the scale computation\<close>

lemma ilog2_le: "0 < n \<Longrightarrow> 2 ^ ilog2 n \<le> n"
proof (induction n rule: ilog2.induct)
  case (1 n)
  show ?case
  proof (cases "n < 2")
    case True
    with "1.prems" show ?thesis by (simp add: ilog2.simps [of n])
  next
    case False
    then have "0 < n div 2" by simp
    with "1.IH" False have "2 ^ ilog2 (n div 2) \<le> n div 2" by simp
    then have "2 * 2 ^ ilog2 (n div 2) \<le> 2 * (n div 2)" by simp
    also have "\<dots> \<le> n" by simp
    finally show ?thesis using False by (simp add: ilog2.simps [of n])
  qed
qed

lemma round_ties_even_error: "\<bar>of_int (round_ties_even q) - q\<bar> \<le> 1 / 2"
proof -
  have "of_int \<lfloor>q\<rfloor> \<le> q" and "q < of_int \<lfloor>q\<rfloor> + 1" by linarith+
  then show ?thesis
    by (auto simp: round_ties_even_def Let_def)
qed

lemma ulp_pos: "1 \<le> x \<Longrightarrow> 0 < ulp x"
  by (simp add: ulp_def)

lemma ulp_le: assumes "1 \<le> x" shows "ulp x \<le> x / 2 ^ 52"
proof -
  have "1 \<le> \<lfloor>x\<rfloor>" using assms by simp
  then have pos: "0 < nat \<lfloor>x\<rfloor>" by simp
  have "(2::rat) ^ ilog2 (nat \<lfloor>x\<rfloor>) = of_nat (2 ^ ilog2 (nat \<lfloor>x\<rfloor>))" by simp
  also have "\<dots> \<le> of_nat (nat \<lfloor>x\<rfloor>)" using ilog2_le [OF pos] of_nat_le_iff by blast
  also have "\<dots> = of_int \<lfloor>x\<rfloor>" using pos by simp
  also have "\<dots> \<le> x" by simp
  finally have "(2::rat) ^ ilog2 (nat \<lfloor>x\<rfloor>) \<le> x" .
  then show ?thesis using assms by (simp add: ulp_def divide_right_mono)
qed

lemma fl_error: assumes "1 \<le> x" shows "\<bar>fl x - x\<bar> \<le> x / 2 ^ 53"
proof -
  define u where "u = ulp x"
  have u: "0 < u" "u \<le> x / 2 ^ 52" using assms ulp_pos ulp_le by (simp_all add: u_def)
  define r where "r = (of_int (round_ties_even (x / u)) :: rat)"
  have "fl x = r * u" using assms by (simp add: fl_def r_def u_def)
  then have "fl x - x = (r - x / u) * u" using u by (simp add: algebra_simps)
  then have "\<bar>fl x - x\<bar> = \<bar>r - x / u\<bar> * u" using u by (simp add: abs_mult)
  also have "\<dots> \<le> (1 / 2) * u"
    using round_ties_even_error [of "x / u"] u unfolding r_def by (intro mult_right_mono) simp_all
  also have "\<dots> \<le> (1 / 2) * (x / 2 ^ 52)" using u by simp
  also have "\<dots> = x / 2 ^ 53" by simp
  finally show ?thesis .
qed

lemma scaled_product_error:
  assumes w: "0 < w" "w \<le> m" and m: "m < (1000::nat)"
  shows "\<bar>js_mul (of_nat w) (js_div 1000 (of_nat m)) - 1000 * of_nat w / of_nat m\<bar> < 1 / 2000"
proof -
  define x :: rat where "x = 1000 / of_nat m"
  define s where "s = fl x"
  define t :: rat where "t = of_nat w * x"
  define y where "y = of_nat w * s"
  have mpos: "(0::rat) < of_nat m" using w by simp
  have "of_nat m \<le> (1000::rat)" using m by (metis less_imp_le_nat of_nat_le_iff of_nat_numeral)
  then have x1: "1 \<le> x" using mpos by (simp add: x_def)
  have xs: "\<bar>s - x\<bar> \<le> x / 2 ^ 53" unfolding s_def by (rule fl_error [OF x1])
  have "of_nat m \<le> (999::rat)" using m by (metis Suc_leI Suc_numeral less_Suc_eq_le of_nat_le_iff of_nat_numeral semiring_norm(5) semiring_norm(8) numeral_le_iff)
  have wle: "(of_nat w :: rat) \<le> of_nat m" using w by simp
  have w1: "(1::rat) \<le> of_nat w" using w by simp
  have t_le: "t \<le> 1000" 
  proof -
    have "t = 1000 * (of_nat w / of_nat m)" by (simp add: t_def x_def)
    also have "\<dots> \<le> 1000 * 1" using wle mpos by (intro mult_left_mono) simp_all
    finally show ?thesis by simp
  qed
  have t_pos: "0 < t" using w1 x1 by (simp add: t_def)
  have yt: "\<bar>y - t\<bar> \<le> t / 2 ^ 53"
  proof -
    have "\<bar>y - t\<bar> = of_nat w * \<bar>s - x\<bar>" by (simp add: y_def t_def abs_mult flip: right_diff_distrib)
    also have "\<dots> \<le> of_nat w * (x / 2 ^ 53)" using xs by (intro mult_left_mono) simp_all
    finally show ?thesis by (simp add: t_def)
  qed
  have x_ge: "1000 / 999 \<le> x" unfolding x_def
    using \<open>of_nat m \<le> (999::rat)\<close> mpos by (intro divide_left_mono) simp_all
  have "x - x / 2 ^ 53 \<le> s" using xs by linarith
  moreover have "1 \<le> x - x / 2 ^ 53" using x_ge by simp
  ultimately have s1: "1 \<le> s" by linarith
  have y1: "1 \<le> y"
  proof -
    have "1 * 1 \<le> of_nat w * s" using w1 s1 by (intro mult_mono) simp_all
    then show ?thesis by (simp add: y_def)
  qed
  have py: "\<bar>fl y - y\<bar> \<le> y / 2 ^ 53" by (rule fl_error [OF y1])
  have y_le: "y \<le> t + t / 2 ^ 53" using yt by linarith
  have "\<bar>fl y - t\<bar> \<le> \<bar>fl y - y\<bar> + \<bar>y - t\<bar>" by linarith
  also have "\<dots> \<le> y / 2 ^ 53 + t / 2 ^ 53" using py yt by linarith
  also have "\<dots> \<le> (t + t / 2 ^ 53) / 2 ^ 53 + t / 2 ^ 53"
    using y_le by (simp add: divide_right_mono)
  also have "\<dots> = t * (2 / 2 ^ 53 + 1 / 2 ^ 106)" by (simp add: algebra_simps)
  also have "\<dots> \<le> 1000 * (2 / 2 ^ 53 + 1 / 2 ^ 106)"
    using t_le by (intro mult_right_mono) simp_all
  also have "\<dots> < 1 / 2000" by simp
  finally have "\<bar>fl y - t\<bar> < 1 / 2000" .
  moreover have "js_mul (of_nat w) (js_div 1000 (of_nat m)) = fl y"
    by (simp add: js_mul_def js_div_def y_def s_def x_def)
  moreover have "1000 * of_nat w / of_nat m = t" by (simp add: t_def x_def)
  ultimately show ?thesis by simp
qed

lemma scaled_dimension:
  assumes w: "0 < w" "w \<le> m" and m: "m < (1000::nat)"
  shows "2 * \<bar>Math_round (js_mul (of_nat w) (js_div 1000 (of_nat m))) * int m - 1000 * int w\<bar> \<le> int m"
proof -
  define p where "p = js_mul (of_nat w) (js_div 1000 (of_nat m))"
  define R where "R = Math_round p"
  define t :: rat where "t = 1000 * of_nat w / of_nat m"
  have mpos: "(0::rat) < of_nat m" using w by simp
  have pt: "\<bar>p - t\<bar> < 1 / 2000" unfolding p_def t_def by (rule scaled_product_error [OF assms])
  have R1: "of_int R \<le> p + 1 / 2" and R2: "p + 1 / 2 < of_int R + 1"
    unfolding R_def Math_round_def by linarith+
  have tm: "t * of_nat m = 1000 * of_nat w" using mpos by (simp add: t_def)
  have m_lt: "(of_nat m :: rat) < 1000" using m by (metis of_nat_less_iff of_nat_numeral)
  have up: "of_int R < t + 1 / 2 + 1 / 2000" using R1 pt by linarith
  have lo: "t - 1 / 2 - 1 / 2000 < of_int R" using R2 pt by linarith
  have "of_int R * of_nat m < (t + 1 / 2 + 1 / 2000) * of_nat m"
    using up mpos by (simp add: mult_strict_right_mono)
  also have "\<dots> = 1000 * of_nat w + of_nat m / 2 + of_nat m / 2000"
    using tm by (simp add: algebra_simps)
  also have "\<dots> < 1000 * of_nat w + of_nat m / 2 + 1 / 2" using m_lt by simp
  finally have A: "2 * (of_int R * of_nat m) < 2000 * of_nat w + of_nat m + (1::rat)" by simp
  have "1000 * of_nat w - of_nat m / 2 - 1 / 2 < 1000 * of_nat w - of_nat m / 2 - of_nat m / (2000::rat)"
    using m_lt by simp
  also have "\<dots> = (t - 1 / 2 - 1 / 2000) * of_nat m" using tm by (simp add: algebra_simps)
  also have "\<dots> < of_int R * of_nat m" using lo mpos by (simp add: mult_strict_right_mono)
  finally have B: "2000 * of_nat w - of_nat m - (1::rat) < 2 * (of_int R * of_nat m)" by simp
  have A': "2 * (R * int m) < 2000 * int w + int m + 1"
  proof -
    have "(of_int (2 * (R * int m)) :: rat) < of_int (2000 * int w + int m + 1)" using A by simp
    then show ?thesis by (simp only: of_int_less_iff)
  qed
  have B': "2000 * int w - int m - 1 < 2 * (R * int m)"
  proof -
    have "(of_int (2000 * int w - int m - 1) :: rat) < of_int (2 * (R * int m))" using B by simp
    then show ?thesis by (simp only: of_int_less_iff)
  qed
  define z where "z = R * int m - 1000 * int w"
  have "2 * z \<le> int m" and "- (2 * z) \<le> int m" using A' B' by (simp_all add: z_def)
  then have "2 * \<bar>z\<bar> \<le> int m" by (simp add: abs_if)
  then show ?thesis unfolding z_def R_def p_def .
qed

lemma scaled_longer_side:
  assumes "0 < m" "m < (1000::nat)"
  shows "Math_round (js_mul (of_nat m) (js_div 1000 (of_nat m))) = 1000"
proof (rule ccontr)
  define d where "d = Math_round (js_mul (of_nat m) (js_div 1000 (of_nat m))) - 1000"
  assume "Math_round (js_mul (of_nat m) (js_div 1000 (of_nat m))) \<noteq> 1000"
  then have "1 \<le> \<bar>d\<bar>" by (simp add: d_def)
  then have "1 * int m \<le> \<bar>d\<bar> * int m" by (intro mult_right_mono) simp_all
  moreover have "2 * \<bar>(d + 1000) * int m - 1000 * int m\<bar> \<le> int m"
    using scaled_dimension [of m m] assms by (simp add: d_def)
  then have "2 * (\<bar>d\<bar> * int m) \<le> int m" by (simp add: algebra_simps abs_mult)
  ultimately show False using assms by simp
qed

lemma scaled_dimension_le:
  assumes "0 < w" "w \<le> m" "m < (1000::nat)"
  shows "Math_round (js_mul (of_nat w) (js_div 1000 (of_nat m))) \<le> 1000"
proof (rule ccontr)
  define R where "R = Math_round (js_mul (of_nat w) (js_div 1000 (of_nat m)))"
  define z where "z = R * int m"
  assume "\<not> Math_round (js_mul (of_nat w) (js_div 1000 (of_nat m))) \<le> 1000"
  then have "1001 \<le> R" by (simp add: R_def)
  then have "1001 * int m \<le> R * int m" by (intro mult_right_mono) simp_all
  then have z1: "1001 * int m \<le> z" by (simp only: z_def)
  have "2 * \<bar>R * int m - 1000 * int w\<bar> \<le> int m"
    unfolding R_def by (rule scaled_dimension [OF assms])
  then have "2 * \<bar>z - 1000 * int w\<bar> \<le> int m" by (simp only: z_def)
  then have z2: "2 * (z - 1000 * int w) \<le> int m" by presburger
  have "int w \<le> int m" and "0 < int m" using assms by simp_all
  with z1 z2 show False by simp
qed

section \<open>The handler up to the chat-completion call\<close>

lemma createOpenAIClient_Inr:
  "createOpenAIClient e = Inr cl \<Longrightarrow> \<not> falsy_string (e ''GRAVIXLAYER_API_KEY'')"
  by (auto simp: createOpenAIClient_def Let_def split: if_splits)

lemma POST_reaches_api:
  assumes "createOpenAIClient e = Inr cl" and "formData_get fd ''image'' = Some f"
  shows "POST e lib api (Form fd) =
     (case api cl (make_request (make_dataUrl (processImageForOCR lib (file_bytes f)))) of
        Inl t \<Rightarrow> outer_catch (rethrow t)
      | Inr completion \<Rightarrow> extractedText_response completion,
      [make_request (make_dataUrl (processImageForOCR lib (file_bytes f)))])"
  using assms createOpenAIClient_Inr [OF assms(1)]
  by (simp add: POST_def POST_try_def Let_def split: sum.splits)

lemma outer_catch_status: "status (outer_catch t) \<in> {401, 429, 500}"
  by (cases t) simp_all

lemma extractedText_response_status: "status (extractedText_response c) \<in> {200, 500}"
  by (simp add: extractedText_response_def Let_def split: option.splits list.splits)

lemma key_sample: "createOpenAIClient (env_with_key ''sk-test'') =
    Inr \<lparr>apiKey = ''sk-test'', baseURL = ''https://api.gravixlayer.com/v1''\<rparr>"
  by (simp add: createOpenAIClient_def env_with_key_def falsy_string_def)

lemma jpeg_form: "formData_get [(''image'', jpeg_upload)] ''image'' = Some jpeg_upload"
  by (simp add: formData_get_def)

lemma jpeg_dataUrl: "make_dataUrl jpeg_head = ''data:image/png;base64,/9j/4A==''"
  by (simp add: make_dataUrl_def jpeg_head_def b64char_def b64chars_def)

lemma text_form: "formData_get [(''image'', text_upload)] ''image'' = Some text_upload"
  by (simp add: formData_get_def)

lemma rethrow_status: "status (outer_catch (rethrow t)) \<noteq> 400"
  using outer_catch_status [of "rethrow t"] by auto

lemma extractedText_response_not_400: "status (extractedText_response c) \<noteq> 400"
  using extractedText_response_status [of c] by auto

lemma last_pipeline: "last (pipeline md) = Png \<lparr>quality = 100, compressionLevel = 0\<rparr>"
  by (simp add: pipeline_def)

lemma pipeline_format: "pipeline (md\<lparr>format := fmt\<rparr>) = pipeline md"
  by (simp add: pipeline_def resize_step_def)

section \<open>The handler as a state transformer\<close>





section \<open>Properties of the route\<close>

text \<open>
  C1. The preprocessor never throws: when reading the metadata or running the pipeline
  fails, \<^verbatim>\<open>processImageForOCR\<close> returns the buffer it was given, unmodified. The failure
  does not reach the user: the handler goes on to the chat-completion call with the original
  bytes, and its response is decided by the outcome of that call alone.
\<close>

theorem processImageForOCR_falls_back:
  assumes "sharp_metadata lib buf = Inl err
     \<or> (\<exists>md. sharp_metadata lib buf = Inr md \<and> sharp_toBuffer lib (pipeline md) buf = Inl err)"
  shows "processImageForOCR lib buf = buf \<and>
    (\<forall>e cl fd f api. createOpenAIClient e = Inr cl \<and> formData_get fd ''image'' = Some f \<and> file_bytes f = buf \<longrightarrow>
       POST e lib api (Form fd) =
         (case api cl (make_request (make_dataUrl buf)) of
            Inl t \<Rightarrow> outer_catch (rethrow t)
          | Inr completion \<Rightarrow> extractedText_response completion,
          [make_request (make_dataUrl buf)]))"
proof -
  from assms have "\<exists>err. processImageForOCR_try lib buf = Inl err"
    by (auto simp: processImageForOCR_try_def)
  then have fb: "processImageForOCR lib buf = buf"
    by (auto simp: processImageForOCR_def)
  show ?thesis
  proof (intro conjI allI impI)
    show "processImageForOCR lib buf = buf" by (rule fb)
  next
    fix e cl fd f api
    assume h: "createOpenAIClient e = Inr cl \<and> formData_get fd ''image'' = Some f \<and> file_bytes f = buf"
    then show "POST e lib api (Form fd) =
         (case api cl (make_request (make_dataUrl buf)) of
            Inl t \<Rightarrow> outer_catch (rethrow t)
          | Inr completion \<Rightarrow> extractedText_response completion,
          [make_request (make_dataUrl buf)])"
      using POST_reaches_api [of e cl fd f lib api] fb by simp
  qed
qed

theorem processImageForOCR_falls_back_witness:
  "sharp_metadata (sharp_rejecting ''Input buffer contains unsupported image format'') jpeg_head =
     Inl ''Input buffer contains unsupported image format''
   \<and> processImageForOCR (sharp_rejecting ''Input buffer contains unsupported image format'') jpeg_head = jpeg_head
   \<and> POST (env_with_key ''sk-test'') (sharp_rejecting ''Input buffer contains unsupported image format'')
        (api_returning (Inr (Some (completion_with (Some ''Invoice 42'')))))
        (Form [(''image'', jpeg_upload)]) =
      (\<lparr>body = JsonText ''Invoice 42'', status = 200\<rparr>,
       [make_request ''data:image/png;base64,/9j/4A==''])"
proof -
  let ?lib = "sharp_rejecting ''Input buffer contains unsupported image format''"
  have h: "sharp_metadata ?lib jpeg_head = Inl ''Input buffer contains unsupported image format''"
    by (simp add: sharp_rejecting_def)
  have b: "file_bytes jpeg_upload = jpeg_head" by (simp add: jpeg_upload_def)
  note t = processImageForOCR_falls_back [where lib = ?lib and buf = jpeg_head, OF disjI1, OF h]
  from t have t1: "processImageForOCR ?lib jpeg_head = jpeg_head" by (rule conjunct1)
  from t have "createOpenAIClient (env_with_key ''sk-test'') =
        Inr \<lparr>apiKey = ''sk-test'', baseURL = ''https://api.gravixlayer.com/v1''\<rparr>
      \<and> formData_get [(''image'', jpeg_upload)] ''image'' = Some jpeg_upload
      \<and> file_bytes jpeg_upload = jpeg_head \<longrightarrow>
    POST (env_with_key ''sk-test'') ?lib (api_returning (Inr (Some (completion_with (Some ''Invoice 42'')))))
        (Form [(''image'', jpeg_upload)]) =
      (case api_returning (Inr (Some (completion_with (Some ''Invoice 42''))))
              \<lparr>apiKey = ''sk-test'', baseURL = ''https://api.gravixlayer.com/v1''\<rparr>
              (make_request (make_dataUrl jpeg_head)) of
         Inl t \<Rightarrow> outer_catch (rethrow t)
       | Inr completion \<Rightarrow> extractedText_response completion,
       [make_request (make_dataUrl jpeg_head)])"
    by blast
  then have t2: "POST (env_with_key ''sk-test'') ?lib
        (api_returning (Inr (Some (completion_with (Some ''Invoice 42'')))))
        (Form [(''image'', jpeg_upload)]) =
      (\<lparr>body = JsonText ''Invoice 42'', status = 200\<rparr>,
       [make_request ''data:image/png;base64,/9j/4A==''])"
    using key_sample jpeg_form b
    by (simp add: jpeg_dataUrl api_returning_def completion_with_def extractedText_response_def
        falsy_string_def)
  from h t1 t2 show ?thesis by simp
qed

text \<open>
  C2, as stated, at a completion whose first message has no content (\<^verbatim>\<open>content: null\<close>):
  the handler answers with status 200 and the fallback text, not with an error.
\<close>

theorem null_content_counterexample:
  "fst (POST (env_with_key ''sk-test'') (sharp_rejecting ''bad input'')
         (api_returning (Inr (Some (completion_with None))))
         (Form [(''image'', jpeg_upload)])) =
     \<lparr>body = JsonText ''No text could be extracted from the image'', status = 200\<rparr>"
  by (simp add: POST_reaches_api [OF key_sample jpeg_form] api_returning_def completion_with_def
      extractedText_response_def falsy_string_def)

text \<open>
  C2, amended. A completion that is null, has no choices, has an empty list of choices, or
  whose first choice has no message, is answered with the error
  \<^verbatim>\<open>Unexpected response structure from Gravix Layer API\<close> and status 500. When the first
  message is present and its content is missing, the answer is a success with the fallback
  text. The handler never answers with a success whose text is empty.
\<close>

theorem malformed_completion_is_error:
  assumes "createOpenAIClient e = Inr cl" and "formData_get fd ''image'' = Some f"
    and "api cl (make_request (make_dataUrl (processImageForOCR lib (file_bytes f)))) = Inr completion"
  shows "(completion = None
          \<or> (\<exists>c. completion = Some c \<and>
                (choices c = None \<or> choices c = Some []
                 \<or> (\<exists>c0 cs. choices c = Some (c0 # cs) \<and> message c0 = None)))
          \<longrightarrow> fst (POST e lib api (Form fd)) =
                \<lparr>body = JsonError ''Unexpected response structure from Gravix Layer API'', status = 500\<rparr>)
       \<and> ((\<exists>c c0 cs m. completion = Some c \<and> choices c = Some (c0 # cs) \<and> message c0 = Some m
                \<and> content m = None)
          \<longrightarrow> fst (POST e lib api (Form fd)) =
                \<lparr>body = JsonText ''No text could be extracted from the image'', status = 200\<rparr>)
       \<and> body (fst (POST e lib api (Form fd))) \<noteq> JsonText ''''"
proof -
  have r: "fst (POST e lib api (Form fd)) = extractedText_response completion"
    using assms by (simp add: POST_reaches_api)
  show ?thesis unfolding r
    by (auto simp: extractedText_response_def falsy_string_def Let_def
        split: option.splits list.splits)
qed

theorem malformed_completion_is_error_witness:
  "fst (POST (env_with_key ''sk-test'') (sharp_rejecting ''bad input'')
         (api_returning (Inr (Some \<lparr>choices = Some []\<rparr>)))
         (Form [(''image'', jpeg_upload)])) =
     \<lparr>body = JsonError ''Unexpected response structure from Gravix Layer API'', status = 500\<rparr>
   \<and> fst (POST (env_with_key ''sk-test'') (sharp_rejecting ''bad input'')
         (api_returning (Inr (Some (completion_with None))))
         (Form [(''image'', jpeg_upload)])) =
     \<lparr>body = JsonText ''No text could be extracted from the image'', status = 200\<rparr>"
proof -
  let ?rq = "make_request (make_dataUrl (processImageForOCR (sharp_rejecting ''bad input'') (file_bytes jpeg_upload)))"
  let ?cl = "\<lparr>apiKey = ''sk-test'', baseURL = ''https://api.gravixlayer.com/v1''\<rparr>"
  have a1: "api_returning (Inr (Some \<lparr>choices = Some []\<rparr>)) ?cl ?rq = Inr (Some \<lparr>choices = Some []\<rparr>)"
    by (simp add: api_returning_def)
  have a2: "api_returning (Inr (Some (completion_with None))) ?cl ?rq = Inr (Some (completion_with None))"
    by (simp add: api_returning_def)
  have "fst (POST (env_with_key ''sk-test'') (sharp_rejecting ''bad input'')
         (api_returning (Inr (Some \<lparr>choices = Some []\<rparr>)))
         (Form [(''image'', jpeg_upload)])) =
     \<lparr>body = JsonError ''Unexpected response structure from Gravix Layer API'', status = 500\<rparr>"
    using malformed_completion_is_error [where lib = "sharp_rejecting ''bad input''"
        and api = "api_returning (Inr (Some \<lparr>choices = Some []\<rparr>))", OF key_sample jpeg_form a1] by simp
  moreover have "fst (POST (env_with_key ''sk-test'') (sharp_rejecting ''bad input'')
         (api_returning (Inr (Some (completion_with None))))
         (Form [(''image'', jpeg_upload)])) =
     \<lparr>body = JsonText ''No text could be extracted from the image'', status = 200\<rparr>"
    using malformed_completion_is_error [where lib = "sharp_rejecting ''bad input''"
        and api = "api_returning (Inr (Some (completion_with None)))", OF key_sample jpeg_form a2]
    by (simp add: completion_with_def)
  ultimately show ?thesis by simp
qed

text \<open>
  C3. When the first choice's message has a content, the handler answers with status 200;
  the text is the literal \<^verbatim>\<open>No text could be extracted from the image\<close> when the content
  is the empty string, and the content itself otherwise.
\<close>

theorem content_or_fallback_text:
  assumes "createOpenAIClient e = Inr cl" and "formData_get fd ''image'' = Some f"
    and "api cl (make_request (make_dataUrl (processImageForOCR lib (file_bytes f)))) = Inr (Some c)"
    and "choices c = Some (c0 # cs)" and "message c0 = Some m" and "content m = Some t"
  shows "fst (POST e lib api (Form fd)) =
    \<lparr>body = JsonText (if t = [] then ''No text could be extracted from the image'' else t),
     status = 200\<rparr>"
  using assms by (simp add: POST_reaches_api extractedText_response_def falsy_string_def)

theorem content_or_fallback_text_witness:
  "fst (POST (env_with_key ''sk-test'') (sharp_rejecting ''bad input'')
         (api_returning (Inr (Some (completion_with (Some '''')))))
         (Form [(''image'', jpeg_upload)])) =
     \<lparr>body = JsonText ''No text could be extracted from the image'', status = 200\<rparr>
   \<and> fst (POST (env_with_key ''sk-test'') (sharp_rejecting ''bad input'')
         (api_returning (Inr (Some (completion_with (Some ''Total: 42'')))))
         (Form [(''image'', jpeg_upload)])) =
     \<lparr>body = JsonText ''Total: 42'', status = 200\<rparr>"
proof -
  let ?rq = "make_request (make_dataUrl
      (processImageForOCR (sharp_rejecting ''bad input'') (file_bytes jpeg_upload)))"
  let ?cl = "\<lparr>apiKey = ''sk-test'', baseURL = ''https://api.gravixlayer.com/v1''\<rparr>"
  have a: "api_returning (Inr (Some (completion_with (Some t)))) ?cl ?rq =
      Inr (Some (completion_with (Some t)))" for t
    by (simp add: api_returning_def)
  have c: "choices (completion_with (Some t)) =
      Some (\<lparr>message = Some \<lparr>content = Some t\<rparr>\<rparr> # [])" for t
    by (simp add: completion_with_def)
  have "fst (POST (env_with_key ''sk-test'') (sharp_rejecting ''bad input'')
         (api_returning (Inr (Some (completion_with (Some '''')))))
         (Form [(''image'', jpeg_upload)])) =
     \<lparr>body = JsonText ''No text could be extracted from the image'', status = 200\<rparr>"
    using content_or_fallback_text [where lib = "sharp_rejecting ''bad input''"
        and api = "api_returning (Inr (Some (completion_with (Some ''''))))"
        and m = "\<lparr>content = Some ''''\<rparr>" and t = "''''",
        OF key_sample jpeg_form a c]
    by simp
  moreover have "fst (POST (env_with_key ''sk-test'') (sharp_rejecting ''bad input'')
         (api_returning (Inr (Some (completion_with (Some ''Total: 42'')))))
         (Form [(''image'', jpeg_upload)])) =
     \<lparr>body = JsonText ''Total: 42'', status = 200\<rparr>"
    using content_or_fallback_text [where lib = "sharp_rejecting ''bad input''"
        and api = "api_returning (Inr (Some (completion_with (Some ''Total: 42''))))"
        and m = "\<lparr>content = Some ''Total: 42''\<rparr>" and t = "''Total: 42''",
        OF key_sample jpeg_form a c]
    by simp
  ultimately show ?thesis by simp
qed

lemma resize_step_cases:
  assumes "width md = Some w" and "height md = Some h" and "0 < w" and "0 < h"
  shows "(Math_max w h < 1000 \<longrightarrow>
           (\<exists>W H. resize_step md = [Resize W H lanczos3]
              \<and> max W H = 1000
              \<and> (h \<le> w \<longrightarrow> W = 1000) \<and> (w \<le> h \<longrightarrow> H = 1000)
              \<and> 2 * \<bar>W * int (Math_max w h) - 1000 * int w\<bar> \<le> int (Math_max w h)
              \<and> 2 * \<bar>H * int (Math_max w h) - 1000 * int h\<bar> \<le> int (Math_max w h)))
       \<and> (1000 \<le> Math_max w h \<longrightarrow>
           resize_step md = [] \<and> (\<forall>W H k. Resize W H k \<notin> set (pipeline md)))"
proof (intro conjI impI)
  assume small: "Math_max w h < 1000"
  define m where "m = Math_max w h"
  define W where "W = Math_round (js_mul (of_nat w) (js_div 1000 (of_nat m)))"
  define H where "H = Math_round (js_mul (of_nat h) (js_div 1000 (of_nat m)))"
  have wm: "w \<le> m" and hm: "h \<le> m" and m: "m < 1000" and mpos: "0 < m"
    using small assms by (simp_all add: m_def Math_max_def)
  have step: "resize_step md = [Resize W H lanczos3]"
    using assms small
    by (simp add: resize_step_def truthy_number_def Let_def W_def H_def m_def)
  have Wle: "W \<le> 1000" unfolding W_def by (rule scaled_dimension_le [OF assms(3) wm m])
  have Hle: "H \<le> 1000" unfolding H_def by (rule scaled_dimension_le [OF assms(4) hm m])
  have Wm: "h \<le> w \<Longrightarrow> W = 1000"
  proof -
    assume "h \<le> w"
    then have "m = w" by (simp add: m_def Math_max_def)
    then show "W = 1000" using scaled_longer_side [OF mpos m] by (simp add: W_def)
  qed
  have Hm: "w \<le> h \<Longrightarrow> H = 1000"
  proof -
    assume "w \<le> h"
    then have "m = h" by (simp add: m_def Math_max_def)
    then show "H = 1000" using scaled_longer_side [OF mpos m] by (simp add: H_def)
  qed
  have mx: "max W H = 1000"
  proof (cases "h \<le> w")
    case True
    with Wm Hle show ?thesis by simp
  next
    case False
    then have "w \<le> h" by simp
    with Hm Wle show ?thesis by simp
  qed
  have Wr: "2 * \<bar>W * int m - 1000 * int w\<bar> \<le> int m"
    unfolding W_def by (rule scaled_dimension [OF assms(3) wm m])
  have Hr: "2 * \<bar>H * int m - 1000 * int h\<bar> \<le> int m"
    unfolding H_def by (rule scaled_dimension [OF assms(4) hm m])
  show "\<exists>W H. resize_step md = [Resize W H lanczos3]
              \<and> max W H = 1000
              \<and> (h \<le> w \<longrightarrow> W = 1000) \<and> (w \<le> h \<longrightarrow> H = 1000)
              \<and> 2 * \<bar>W * int (Math_max w h) - 1000 * int w\<bar> \<le> int (Math_max w h)
              \<and> 2 * \<bar>H * int (Math_max w h) - 1000 * int h\<bar> \<le> int (Math_max w h)"
    using step mx Wm Hm Wr Hr unfolding m_def by blast
next
  assume big: "1000 \<le> Math_max w h"
  then show "resize_step md = []"
    using assms by (simp add: resize_step_def truthy_number_def Let_def)
  then show "\<forall>W H k. Resize W H k \<notin> set (pipeline md)"
    by (simp add: pipeline_def)
qed

text \<open>
  C4. For an image whose metadata gives a width and a height: when the longer side is below
  1000 pixels, the preprocessor runs the imaging library on a pipeline with a resize to a
  width and height whose longer side is exactly 1000 and each of which is a nearest integer
  to the exactly scaled side (the aspect ratio is kept up to rounding to whole pixels); when
  the longer side is 1000 pixels or more, 1000 included, the pipeline it runs has no resize
  operation.
\<close>

theorem upscale_only_below_1000:
  assumes "sharp_metadata lib buf = Inr md"
    and "width md = Some w" and "height md = Some h" and "0 < w" and "0 < h"
  shows "processImageForOCR_try lib buf = sharp_toBuffer lib (pipeline md) buf
       \<and> processImageForOCR lib buf =
           (case sharp_toBuffer lib (pipeline md) buf of
              Inl err \<Rightarrow> buf | Inr processedBuffer \<Rightarrow> processedBuffer)
       \<and> (Math_max w h < 1000 \<longrightarrow>
           (\<exists>W H. pipeline md =
                [Grayscale, Normalize, Resize W H lanczos3,
                 Sharpen \<lparr>sigma = 1, m1 = 1, m2 = 2, x1 = 2, y2 = 10, y3 = 20\<rparr>,
                 Gamma (fl (6 / 5)), Png \<lparr>quality = 100, compressionLevel = 0\<rparr>]
              \<and> resize_step md = [Resize W H lanczos3]
              \<and> max W H = 1000
              \<and> (h \<le> w \<longrightarrow> W = 1000) \<and> (w \<le> h \<longrightarrow> H = 1000)
              \<and> 2 * \<bar>W * int (Math_max w h) - 1000 * int w\<bar> \<le> int (Math_max w h)
              \<and> 2 * \<bar>H * int (Math_max w h) - 1000 * int h\<bar> \<le> int (Math_max w h)))
       \<and> (1000 \<le> Math_max w h \<longrightarrow>
           pipeline md =
             [Grayscale, Normalize,
              Sharpen \<lparr>sigma = 1, m1 = 1, m2 = 2, x1 = 2, y2 = 10, y3 = 20\<rparr>,
              Gamma (fl (6 / 5)), Png \<lparr>quality = 100, compressionLevel = 0\<rparr>]
           \<and> resize_step md = [] \<and> (\<forall>W H k. Resize W H k \<notin> set (pipeline md)))"
proof (intro conjI impI)
  show t: "processImageForOCR_try lib buf = sharp_toBuffer lib (pipeline md) buf"
    using assms(1) by (simp add: processImageForOCR_try_def)
  show "processImageForOCR lib buf =
      (case sharp_toBuffer lib (pipeline md) buf of
         Inl err \<Rightarrow> buf | Inr processedBuffer \<Rightarrow> processedBuffer)"
    by (simp add: processImageForOCR_def t)
next
  assume small: "Math_max w h < 1000"
  from resize_step_cases [OF assms(2-5)] small
  obtain W H where step: "resize_step md = [Resize W H lanczos3]"
    and rest: "max W H = 1000" "h \<le> w \<longrightarrow> W = 1000" "w \<le> h \<longrightarrow> H = 1000"
      "2 * \<bar>W * int (Math_max w h) - 1000 * int w\<bar> \<le> int (Math_max w h)"
      "2 * \<bar>H * int (Math_max w h) - 1000 * int h\<bar> \<le> int (Math_max w h)"
    by blast
  have p: "pipeline md =
      [Grayscale, Normalize, Resize W H lanczos3,
       Sharpen \<lparr>sigma = 1, m1 = 1, m2 = 2, x1 = 2, y2 = 10, y3 = 20\<rparr>,
       Gamma (fl (6 / 5)), Png \<lparr>quality = 100, compressionLevel = 0\<rparr>]"
    by (simp add: pipeline_def step)
  show "\<exists>W H. pipeline md =
                [Grayscale, Normalize, Resize W H lanczos3,
                 Sharpen \<lparr>sigma = 1, m1 = 1, m2 = 2, x1 = 2, y2 = 10, y3 = 20\<rparr>,
                 Gamma (fl (6 / 5)), Png \<lparr>quality = 100, compressionLevel = 0\<rparr>]
              \<and> resize_step md = [Resize W H lanczos3]
              \<and> max W H = 1000
              \<and> (h \<le> w \<longrightarrow> W = 1000) \<and> (w \<le> h \<longrightarrow> H = 1000)
              \<and> 2 * \<bar>W * int (Math_max w h) - 1000 * int w\<bar> \<le> int (Math_max w h)
              \<and> 2 * \<bar>H * int (Math_max w h) - 1000 * int h\<bar> \<le> int (Math_max w h)"
    using p step rest by blast
next
  assume big: "1000 \<le> Math_max w h"
  with resize_step_cases [OF assms(2-5)]
  have step: "resize_step md = []" and none: "\<forall>W H k. Resize W H k \<notin> set (pipeline md)"
    by blast+
  show "pipeline md =
      [Grayscale, Normalize,
       Sharpen \<lparr>sigma = 1, m1 = 1, m2 = 2, x1 = 2, y2 = 10, y3 = 20\<rparr>,
       Gamma (fl (6 / 5)), Png \<lparr>quality = 100, compressionLevel = 0\<rparr>]"
    by (simp add: pipeline_def step)
  show "resize_step md = []" by (rule step)
  show "\<forall>W H k. Resize W H k \<notin> set (pipeline md)" by (rule none)
qed

theorem upscale_only_below_1000_witness:
  "pipeline \<lparr>width = Some 800, height = Some 600, format = Some ''jpeg''\<rparr> =
     [Grayscale, Normalize, Resize 1000 750 lanczos3,
      Sharpen \<lparr>sigma = 1, m1 = 1, m2 = 2, x1 = 2, y2 = 10, y3 = 20\<rparr>,
      Gamma (fl (6 / 5)), Png \<lparr>quality = 100, compressionLevel = 0\<rparr>]
   \<and> processImageForOCR_try
        (sharp_answering \<lparr>width = Some 800, height = Some 600, format = Some ''jpeg''\<rparr> png_signature)
        jpeg_head =
      sharp_toBuffer
        (sharp_answering \<lparr>width = Some 800, height = Some 600, format = Some ''jpeg''\<rparr> png_signature)
        [Grayscale, Normalize, Resize 1000 750 lanczos3,
         Sharpen \<lparr>sigma = 1, m1 = 1, m2 = 2, x1 = 2, y2 = 10, y3 = 20\<rparr>,
         Gamma (fl (6 / 5)), Png \<lparr>quality = 100, compressionLevel = 0\<rparr>]
        jpeg_head
   \<and> pipeline \<lparr>width = Some 1000, height = Some 400, format = Some ''png''\<rparr> =
     [Grayscale, Normalize,
      Sharpen \<lparr>sigma = 1, m1 = 1, m2 = 2, x1 = 2, y2 = 10, y3 = 20\<rparr>,
      Gamma (fl (6 / 5)), Png \<lparr>quality = 100, compressionLevel = 0\<rparr>]"
proof -
  let ?small = "\<lparr>width = Some 800, height = Some 600, format = Some ''jpeg''\<rparr>"
  let ?edge = "\<lparr>width = Some 1000, height = Some 400, format = Some ''png''\<rparr>"
  have mx: "Math_max 800 600 = 800" "Math_max 1000 400 = 1000" by (simp_all add: Math_max_def)
  have ms: "sharp_metadata (sharp_answering ?small png_signature) jpeg_head = Inr ?small"
    and me: "sharp_metadata (sharp_answering ?edge png_signature) jpeg_head = Inr ?edge"
    by (simp_all add: sharp_answering_def)
  have "processImageForOCR_try (sharp_answering ?small png_signature) jpeg_head =
        sharp_toBuffer (sharp_answering ?small png_signature) (pipeline ?small) jpeg_head
      \<and> (\<exists>W H. pipeline ?small =
        [Grayscale, Normalize, Resize W H lanczos3,
         Sharpen \<lparr>sigma = 1, m1 = 1, m2 = 2, x1 = 2, y2 = 10, y3 = 20\<rparr>,
         Gamma (fl (6 / 5)), Png \<lparr>quality = 100, compressionLevel = 0\<rparr>]
      \<and> W = 1000 \<and> 2 * \<bar>H * 800 - 600000\<bar> \<le> 800)"
    using upscale_only_below_1000 [OF ms, of 800 600] by (simp add: mx) blast
  then obtain W H where p: "pipeline ?small =
        [Grayscale, Normalize, Resize W H lanczos3,
         Sharpen \<lparr>sigma = 1, m1 = 1, m2 = 2, x1 = 2, y2 = 10, y3 = 20\<rparr>,
         Gamma (fl (6 / 5)), Png \<lparr>quality = 100, compressionLevel = 0\<rparr>]"
    and t: "processImageForOCR_try (sharp_answering ?small png_signature) jpeg_head =
        sharp_toBuffer (sharp_answering ?small png_signature) (pipeline ?small) jpeg_head"
    and W: "W = 1000" and H: "2 * \<bar>H * 800 - 600000\<bar> \<le> 800"
    by blast
  from H have H': "H = 750" by (simp add: abs_le_iff)
  have edge: "pipeline ?edge =
     [Grayscale, Normalize,
      Sharpen \<lparr>sigma = 1, m1 = 1, m2 = 2, x1 = 2, y2 = 10, y3 = 20\<rparr>,
      Gamma (fl (6 / 5)), Png \<lparr>quality = 100, compressionLevel = 0\<rparr>]"
    using upscale_only_below_1000 [OF me, of 1000 400] by (simp add: mx)
  from p [unfolded W H'] t [unfolded p W H'] edge show ?thesis by simp
qed

text \<open>
  C5. A request made while no API credential is configured (the environment variable is
  unset or empty) is answered at once with the missing-credential error and status 500,
  whatever the request carries, and no chat-completion call is made.
\<close>

theorem missing_credential_fails_fast:
  assumes "falsy_string (e ''GRAVIXLAYER_API_KEY'')"
  shows "POST e lib api req =
    (\<lparr>body = JsonError ''GRAVIXLAYER_API_KEY environment variable is not set'', status = 500\<rparr>, [])"
  using assms by (simp add: POST_def POST_try_def)

theorem missing_credential_fails_fast_witness:
  "falsy_string (env_without_key ''GRAVIXLAYER_API_KEY'') \<and>
   POST env_without_key (sharp_rejecting ''bad input'') (api_returning (Inr None)) (Form [(''image'', jpeg_upload)]) =
    (\<lparr>body = JsonError ''GRAVIXLAYER_API_KEY environment variable is not set'', status = 500\<rparr>, [])"
proof -
  have h: "falsy_string (env_without_key ''GRAVIXLAYER_API_KEY'')"
    by (simp add: falsy_string_def env_without_key_def)
  show ?thesis using h missing_credential_fails_fast [where e = env_without_key, OF h] by simp
qed

text \<open>
  C6, as stated, at a request whose body is not form data (so that no file is attached) while
  the credential is configured: \<^verbatim>\<open>request.formData()\<close> rejects, the outer
  \<^verbatim>\<open>catch\<close> answers, and the status is 500, not 400.
\<close>

theorem rejected_body_counterexample:
  "POST (env_with_key ''sk-test'') (sharp_rejecting ''bad input'') (api_returning (Inr None))
      (BodyRejected ''Failed to parse body as FormData.'') =
     (\<lparr>body = JsonError ''Internal server error: Failed to parse body as FormData.'',
       status = 500\<rparr>, [])"
proof -
  have "\<not> falsy_string (env_with_key ''sk-test'' ''GRAVIXLAYER_API_KEY'')"
    by (simp add: falsy_string_def env_with_key_def)
  then show ?thesis by (simp add: POST_def POST_try_def)
qed

text \<open>
  C6, amended. With the credential configured, a request whose body is form data without an
  \<^verbatim>\<open>image\<close> entry is answered with the error \<^verbatim>\<open>No image file provided\<close> and
  status 400, and no chat-completion call is made. A request whose body is rejected as form
  data is answered by the outer \<^verbatim>\<open>catch\<close>, never with status 400, and no chat-completion
  call is made either.
\<close>

theorem missing_file_by_request_shape:
  assumes "\<not> falsy_string (e ''GRAVIXLAYER_API_KEY'')"
  shows "(formData_get fd ''image'' = None \<longrightarrow>
            POST e lib api (Form fd) =
              (\<lparr>body = JsonError ''No image file provided'', status = 400\<rparr>, []))
       \<and> POST e lib api (BodyRejected msg) = (outer_catch (ErrorObject msg), [])
       \<and> status (fst (POST e lib api (BodyRejected msg))) \<noteq> 400"
proof -
  have r: "POST e lib api (BodyRejected msg) = (outer_catch (ErrorObject msg), [])"
    using assms by (simp add: POST_def POST_try_def)
  have "status (outer_catch (ErrorObject msg)) \<noteq> 400"
    using outer_catch_status [of "ErrorObject msg"] by auto
  with r show ?thesis using assms by (simp add: POST_def POST_try_def)
qed

theorem missing_file_by_request_shape_witness:
  "\<not> falsy_string (env_with_key ''sk-test'' ''GRAVIXLAYER_API_KEY'') \<and> formData_get [] ''image'' = None \<and>
   POST (env_with_key ''sk-test'') (sharp_rejecting ''bad input'') (api_returning (Inr None)) (Form []) =
     (\<lparr>body = JsonError ''No image file provided'', status = 400\<rparr>, [])
   \<and> status (fst (POST (env_with_key ''sk-test'') (sharp_rejecting ''bad input'')
        (api_returning (Inr None)) (BodyRejected ''Failed to parse body as FormData.''))) \<noteq> 400"
proof -
  have h1: "\<not> falsy_string (env_with_key ''sk-test'' ''GRAVIXLAYER_API_KEY'')"
    by (simp add: falsy_string_def env_with_key_def)
  have h2: "formData_get [] ''image'' = None" by (simp add: formData_get_def)
  show ?thesis
    using h1 h2 missing_file_by_request_shape [where e = "env_with_key ''sk-test''"
        and fd = "[]" and lib = "sharp_rejecting ''bad input''" and api = "api_returning (Inr None)"
        and msg = "''Failed to parse body as FormData.''", OF h1]
    by simp
qed

text \<open>
  C7, as stated, at a request carrying a file of 11 MiB with MIME type \<^verbatim>\<open>text/plain\<close>:
  the handler does not reject it, it forwards it and answers with status 200.
\<close>

theorem server_accepts_any_file_counterexample:
  "file_type text_upload = ''text/plain''
   \<and> 10 * 1024 * 1024 < file_size text_upload
   \<and> fst (POST (env_with_key ''sk-test'') (sharp_rejecting ''bad input'')
         (api_returning (Inr (Some (completion_with (Some ''hello'')))))
         (Form [(''image'', text_upload)])) =
       \<lparr>body = JsonText ''hello'', status = 200\<rparr>"
proof -
  have "file_type text_upload = ''text/plain''" by (simp add: text_upload_def)
  moreover have "10 * 1024 * 1024 < file_size text_upload"
    by (simp add: text_upload_def file_size_def)
  moreover have "fst (POST (env_with_key ''sk-test'') (sharp_rejecting ''bad input'')
         (api_returning (Inr (Some (completion_with (Some ''hello'')))))
         (Form [(''image'', text_upload)])) =
       \<lparr>body = JsonText ''hello'', status = 200\<rparr>"
    by (simp add: POST_reaches_api [OF key_sample text_form] api_returning_def completion_with_def
        extractedText_response_def falsy_string_def)
  ultimately show ?thesis by simp
qed

text \<open>
  C7, amended. The limits are the client's: \<^verbatim>\<open>processFile\<close> submits a file exactly when
  its MIME type starts with \<^verbatim>\<open>image/\<close>, its size is at most 10 MiB and the promise of
  its preview settles; it shows an error for another type or a larger size, and submits
  nothing while the preview stays pending. The handler checks neither type nor size: with the
  credential configured, a request carrying any file is never answered with status 400 and
  causes one chat-completion call.
\<close>

theorem size_and_type_checked_by_client_only:
  "(processFile browser f = Submit f \<longleftrightarrow>
      startsWith (file_type f) ''image/'' \<and> file_size f \<le> 10 * 1024 * 1024
      \<and> browser f \<noteq> Pending)
   \<and> (processFile browser f \<noteq> Submit f \<longrightarrow>
      processFile browser f = ShowError ''File must be under 10MB''
      \<or> processFile browser f = ShowError ''Please select an image file''
      \<or> processFile browser f = NeverSubmitted)
   \<and> (processFile browser f = NeverSubmitted \<longleftrightarrow>
      startsWith (file_type f) ''image/'' \<and> file_size f \<le> 10 * 1024 * 1024
      \<and> browser f = Pending)
   \<and> (\<forall>e cl fd lib api.
        createOpenAIClient e = Inr cl \<and> formData_get fd ''image'' = Some f \<longrightarrow>
        status (fst (POST e lib api (Form fd))) \<noteq> 400
        \<and> snd (POST e lib api (Form fd)) =
            [make_request (make_dataUrl (processImageForOCR lib (file_bytes f)))])"
proof (intro conjI allI impI)
  show "processFile browser f = Submit f \<longleftrightarrow>
      startsWith (file_type f) ''image/'' \<and> file_size f \<le> 10 * 1024 * 1024
      \<and> browser f \<noteq> Pending"
    by (auto simp: processFile_def split: preview.splits)
next
  assume "processFile browser f \<noteq> Submit f"
  then show "processFile browser f = ShowError ''File must be under 10MB''
      \<or> processFile browser f = ShowError ''Please select an image file''
      \<or> processFile browser f = NeverSubmitted"
    by (auto simp: processFile_def split: if_splits preview.splits)
next
  show "processFile browser f = NeverSubmitted \<longleftrightarrow>
      startsWith (file_type f) ''image/'' \<and> file_size f \<le> 10 * 1024 * 1024
      \<and> browser f = Pending"
    by (auto simp: processFile_def split: preview.splits)
next
  fix e cl fd lib api
  assume h: "createOpenAIClient e = Inr cl \<and> formData_get fd ''image'' = Some f"
  then show "status (fst (POST e lib api (Form fd))) \<noteq> 400"
    by (auto simp: POST_reaches_api rethrow_status extractedText_response_not_400 split: sum.splits)
  from h show "snd (POST e lib api (Form fd)) =
            [make_request (make_dataUrl (processImageForOCR lib (file_bytes f)))]"
    by (simp add: POST_reaches_api)
qed

theorem size_and_type_checked_by_client_only_witness:
  "processFile preview_of_gif text_upload = ShowError ''Please select an image file''
   \<and> processFile preview_of_gif gif_upload = Submit gif_upload
   \<and> processFile preview_of_gif jpeg_upload = NeverSubmitted
   \<and> status (fst (POST (env_with_key ''sk-test'') (sharp_rejecting ''bad input'')
         (api_returning (Inr (Some (completion_with (Some ''hello'')))))
         (Form [(''image'', text_upload)]))) \<noteq> 400"
proof -
  have c1: "processFile preview_of_gif text_upload \<noteq> Submit text_upload"
    by (simp add: processFile_def text_upload_def)
  have c2: "startsWith (file_type gif_upload) ''image/'' \<and> file_size gif_upload \<le> 10 * 1024 * 1024
      \<and> preview_of_gif gif_upload \<noteq> Pending"
    by (simp add: gif_upload_def file_size_def gif_pixel_def preview_of_gif_def)
  have c3: "startsWith (file_type jpeg_upload) ''image/'' \<and> file_size jpeg_upload \<le> 10 * 1024 * 1024
      \<and> preview_of_gif jpeg_upload = Pending"
    by (simp add: jpeg_upload_def file_size_def jpeg_head_def gif_pixel_def preview_of_gif_def)
  have n1: "processFile preview_of_gif text_upload \<noteq> ShowError ''File must be under 10MB''"
    and n2: "processFile preview_of_gif text_upload \<noteq> NeverSubmitted"
    by (simp_all add: processFile_def text_upload_def)
  from c1 n1 n2 have "processFile preview_of_gif text_upload = ShowError ''Please select an image file''"
    using size_and_type_checked_by_client_only [of preview_of_gif text_upload] by blast
  moreover have "processFile preview_of_gif gif_upload = Submit gif_upload"
    using size_and_type_checked_by_client_only [of preview_of_gif gif_upload] c2 by blast
  moreover have "processFile preview_of_gif jpeg_upload = NeverSubmitted"
    using size_and_type_checked_by_client_only [of preview_of_gif jpeg_upload] c3 by blast
  moreover have "status (fst (POST (env_with_key ''sk-test'') (sharp_rejecting ''bad input'')
         (api_returning (Inr (Some (completion_with (Some ''hello'')))))
         (Form [(''image'', text_upload)]))) \<noteq> 400"
    using size_and_type_checked_by_client_only [of preview_of_gif text_upload] key_sample text_form
    by blast
  ultimately show ?thesis by simp
qed

text \<open>
  C8, as stated, on the fallback path: for a JPEG buffer that the imaging library rejects,
  the buffer handed to the gateway is the JPEG buffer itself, which does not start with the
  PNG signature, inside a data URL that declares \<^verbatim>\<open>image/png\<close>.
\<close>

theorem fallback_sends_original_bytes_counterexample:
  "processImageForOCR (sharp_rejecting ''Input buffer contains unsupported image format'') jpeg_head = jpeg_head
   \<and> \<not> has_png_signature jpeg_head
   \<and> map image_url (snd (POST (env_with_key ''sk-test'')
         (sharp_rejecting ''Input buffer contains unsupported image format'')
         (api_returning (Inr (Some (completion_with (Some ''hello'')))))
         (Form [(''image'', jpeg_upload)]))) =
       [''data:image/png;base64,/9j/4A=='']"
proof -
  let ?lib = "sharp_rejecting ''Input buffer contains unsupported image format''"
  have fb: "processImageForOCR ?lib jpeg_head = jpeg_head"
    by (simp add: processImageForOCR_def processImageForOCR_try_def sharp_rejecting_def)
  moreover have "\<not> has_png_signature jpeg_head"
    by (simp add: has_png_signature_def png_signature_def jpeg_head_def)
  moreover have bytes: "file_bytes jpeg_upload = jpeg_head" by (simp add: jpeg_upload_def)
  moreover have "map image_url (snd (POST (env_with_key ''sk-test'') ?lib
         (api_returning (Inr (Some (completion_with (Some ''hello'')))))
         (Form [(''image'', jpeg_upload)]))) =
       [''data:image/png;base64,/9j/4A=='']"
    using fb bytes by (simp add: POST_reaches_api [OF key_sample jpeg_form]
        jpeg_dataUrl make_request_def)
  ultimately show ?thesis by simp
qed

text \<open>
  C8, amended. When preprocessing succeeds, the buffer handed to the gateway is the output
  of the pipeline, whose last operation is the PNG encoder whatever the format of the input,
  and the data URL sent upstream declares \<^verbatim>\<open>image/png\<close>.
\<close>

theorem successful_preprocessing_sends_png:
  assumes "createOpenAIClient e = Inr cl" and "formData_get fd ''image'' = Some f"
    and "sharp_metadata lib (file_bytes f) = Inr md"
    and "sharp_toBuffer lib (pipeline md) (file_bytes f) = Inr out"
  shows "last (pipeline md) = Png \<lparr>quality = 100, compressionLevel = 0\<rparr>
    \<and> pipeline (md\<lparr>format := fmt\<rparr>) = pipeline md
    \<and> snd (POST e lib api (Form fd)) =
        [make_request (''data:image/png;base64,'' @ toString_base64 out)]"
proof -
  have "processImageForOCR lib (file_bytes f) = out"
    using assms(3,4) by (simp add: processImageForOCR_def processImageForOCR_try_def)
  then have "snd (POST e lib api (Form fd)) =
        [make_request (''data:image/png;base64,'' @ toString_base64 out)]"
    using assms(1,2) by (simp add: POST_reaches_api make_dataUrl_def)
  then show ?thesis by (simp add: last_pipeline pipeline_format)
qed

theorem successful_preprocessing_sends_png_witness:
  "snd (POST (env_with_key ''sk-test'')
          (sharp_answering \<lparr>width = Some 1200, height = Some 800, format = Some ''jpeg''\<rparr> png_signature)
          (api_returning (Inr (Some (completion_with (Some ''hello'')))))
          (Form [(''image'', jpeg_upload)])) =
     [make_request ''data:image/png;base64,iVBORw0KGgo='']"
proof -
  let ?md = "\<lparr>width = Some 1200, height = Some 800, format = Some ''jpeg''\<rparr>"
  let ?lib = "sharp_answering ?md png_signature"
  have m: "sharp_metadata ?lib (file_bytes jpeg_upload) = Inr ?md"
    by (simp add: sharp_answering_def)
  have b: "sharp_toBuffer ?lib (pipeline ?md) (file_bytes jpeg_upload) = Inr png_signature"
    by (simp add: sharp_answering_def)
  have e: "toString_base64 png_signature = ''iVBORw0KGgo=''"
    by (simp add: png_signature_def b64char_def b64chars_def)
  show ?thesis
    using successful_preprocessing_sends_png [where lib = ?lib and api = "api_returning (Inr (Some (completion_with (Some ''hello''))))",
        OF key_sample jpeg_form m b]
    by (simp add: e)
qed




text \<open>
  C10. The credential check comes before the check of the input: a request that lacks both
  the credential and the image file gets the missing-credential error with status 500, not
  the invalid-input error with status 400.
\<close>

theorem credential_check_precedes_validation:
  assumes "falsy_string (e ''GRAVIXLAYER_API_KEY'')" and "formData_get fd ''image'' = None"
  shows "fst (POST e lib api (Form fd)) =
      \<lparr>body = JsonError ''GRAVIXLAYER_API_KEY environment variable is not set'', status = 500\<rparr>
    \<and> fst (POST e lib api (Form fd)) \<noteq> \<lparr>body = JsonError ''No image file provided'', status = 400\<rparr>"
  using assms by (simp add: POST_def POST_try_def)

theorem credential_check_precedes_validation_witness:
  "falsy_string (env_without_key ''GRAVIXLAYER_API_KEY'') \<and> formData_get [] ''image'' = None \<and>
   fst (POST env_without_key (sharp_rejecting ''bad input'') (api_returning (Inr None)) (Form [])) =
      \<lparr>body = JsonError ''GRAVIXLAYER_API_KEY environment variable is not set'', status = 500\<rparr>
    \<and> fst (POST env_without_key (sharp_rejecting ''bad input'') (api_returning (Inr None)) (Form [])) \<noteq>
      \<lparr>body = JsonError ''No image file provided'', status = 400\<rparr>"
proof -
  have h1: "falsy_string (env_without_key ''GRAVIXLAYER_API_KEY'')"
    by (simp add: falsy_string_def env_without_key_def)
  have h2: "formData_get [] ''image'' = None" by (simp add: formData_get_def)
  show ?thesis using h1 h2 credential_check_precedes_validation [where e = env_without_key, OF h1 h2] by simp
qed

end
